theory Spec2Isabelle
  imports Main
begin

section \<open>JavaScript values and objects\<close>

text \<open>
  The attribute values the behavior writes are strings, booleans, numbers and
  \<open>undefined\<close>. The numbers of the props (\<open>level\<close>, \<open>index\<close>, \<open>treeSize\<close>) are
  only copied, never computed with; the one numeric literal is \<open>-1\<close>.
\<close>

datatype js_value = JUndefined | JBool bool | JNum int | JStr string

text \<open>
  An object is its list of own properties in insertion order, every key at most once.
  Writing a key that is present replaces the value where it stands; writing a new key
  appends it.
\<close>

type_synonym 'v obj = "(string \<times> 'v) list"

fun set_prop :: "string \<Rightarrow> 'v \<Rightarrow> 'v obj \<Rightarrow> 'v obj" where
  "set_prop k v [] = [(k, v)]"
| "set_prop k v ((k', v') # ps) =
     (if k' = k then (k, v) # ps else (k', v') # set_prop k v ps)"

text \<open>
  The members of an object literal, in source order: \<open>key: value\<close> (also with a computed
  key) and \<open>...expr\<close>. Spreading a value that is not an object (\<open>false\<close>, \<open>undefined\<close>)
  adds nothing: that value is \<open>None\<close>.
\<close>

datatype 'v member = Prop string 'v | Spread "'v obj option"

fun add_member :: "'v member \<Rightarrow> 'v obj \<Rightarrow> 'v obj" where
  "add_member (Prop k v) ob = set_prop k v ob"
| "add_member (Spread None) ob = ob"
| "add_member (Spread (Some src)) ob = fold (\<lambda>(k, v). set_prop k v) src ob"

definition object_literal :: "'v member list \<Rightarrow> 'v obj" where
  "object_literal ms = fold add_member ms []"

text \<open>
  \<open>c && {...}\<close> in spread position: the object when \<open>c\<close> is truthy, a falsy
  non-object otherwise.
\<close>

definition guard :: "bool \<Rightarrow> 'a \<Rightarrow> 'a option" where
  "guard c x = (if c then Some x else None)"

text \<open>
  An optional boolean field read in a boolean position: absent (\<open>undefined\<close>) and
  \<open>false\<close> are falsy.
\<close>

definition truthy :: "bool option \<Rightarrow> bool" where
  "truthy b = (b = Some True)"

text \<open>An optional field read as a value: \<open>undefined\<close> when absent.\<close>

definition bool_value :: "bool option \<Rightarrow> js_value" where
  "bool_value b = (case b of None \<Rightarrow> JUndefined | Some x \<Rightarrow> JBool x)"

definition number_value :: "int option \<Rightarrow> js_value" where
  "number_value n = (case n of None \<Rightarrow> JUndefined | Some x \<Rightarrow> JNum x)"

section \<open>The data model of \<open>treeItemBehavior.ts\<close>\<close>

record TreeItemBehaviorProps =
  expanded :: "bool option"
  level :: "int option"
  index :: "int option"
  hasSubtree :: "bool option"
  treeSize :: "int option"
  selectable :: "bool option"
  selected :: "bool option"

record key_combination =
  keyCode :: int

record key_action =
  keyCombinations :: "key_combination list"

text \<open>
  What the module imports and reads from its surroundings, none of it declared in the
  file itself: the key codes of \<open>@fluentui/keyboard-key\<close>, the attribute name
  \<open>IS_FOCUSABLE_ATTRIBUTE\<close>, the title behavior, and \<open>process.env.NODE_ENV\<close>
  (\<open>None\<close> when the variable is not set). They are parameters of the model.
\<close>

record keyboardKey =
  Enter :: int
  ArrowLeft :: int
  ArrowRight :: int
  Asterisk :: int

record ('p, 'd) module_env =
  keyboardKey :: keyboardKey
  SpacebarKey :: int
  IS_FOCUSABLE_ATTRIBUTE :: string
  treeTitleBehavior :: "'p \<Rightarrow> 'd"
  NODE_ENV :: "string option"

record 'a root_slot =
  root :: 'a

record 'a title_slot =
  title :: 'a

record ('p, 'd) accessibility_definition =
  attributes :: "js_value obj root_slot"
  keyActions :: "key_action obj root_slot"
  childBehaviors :: "('p \<Rightarrow> 'd) title_slot"

section \<open>The behavior\<close>

text \<open>\<open>isSubtreeExpanded\<close>: \<open>!!(hasSubtree && expanded)\<close>.\<close>

definition isSubtreeExpanded :: "TreeItemBehaviorProps \<Rightarrow> bool" where
  "isSubtreeExpanded props = (truthy (hasSubtree props) \<and> truthy (expanded props))"

definition treeItemBehavior ::
  "('p, 'd) module_env \<Rightarrow> TreeItemBehaviorProps \<Rightarrow> ('p, 'd) accessibility_definition" where
  "treeItemBehavior env props =
     (let definition = \<lparr>
        attributes = \<lparr>
          root = object_literal [
            Prop ''role'' (JStr ''none''),
            Spread (guard (truthy (hasSubtree props)) (object_literal [
              Prop ''aria-expanded'' (bool_value (expanded props)),
              Prop ''aria-selected''
                (if truthy (selectable props)
                 then (if truthy (selected props) then JBool True else JBool False)
                 else JUndefined),
              Prop ''tabIndex'' (JNum (- 1)),
              Prop (IS_FOCUSABLE_ATTRIBUTE env) (JBool True),
              Prop ''role'' (JStr ''treeitem''),
              Prop ''aria-setsize'' (number_value (treeSize props)),
              Prop ''aria-posinset'' (number_value (index props)),
              Prop ''aria-level'' (number_value (level props))]))]\<rparr>,
        keyActions = \<lparr>
          root = object_literal [
            Prop ''performClick''
              \<lparr>keyCombinations =
                 [\<lparr>keyCode = Enter (keyboardKey env)\<rparr>, \<lparr>keyCode = SpacebarKey env\<rparr>]\<rparr>,
            Spread (guard (isSubtreeExpanded props) (object_literal [
              Prop ''collapse''
                \<lparr>keyCombinations = [\<lparr>keyCode = ArrowLeft (keyboardKey env)\<rparr>]\<rparr>,
              Prop ''focusFirstChild''
                \<lparr>keyCombinations = [\<lparr>keyCode = ArrowRight (keyboardKey env)\<rparr>]\<rparr>,
              Prop ''focusParent''
                \<lparr>keyCombinations = [\<lparr>keyCode = ArrowLeft (keyboardKey env)\<rparr>]\<rparr>])),
            Spread (guard (\<not> isSubtreeExpanded props \<and> truthy (hasSubtree props))
              (object_literal [
                Prop ''expand''
                  \<lparr>keyCombinations = [\<lparr>keyCode = ArrowRight (keyboardKey env)\<rparr>]\<rparr>,
                Prop ''focusParent''
                  \<lparr>keyCombinations = [\<lparr>keyCode = ArrowLeft (keyboardKey env)\<rparr>]\<rparr>])),
            Prop ''expandSiblings''
              \<lparr>keyCombinations = [\<lparr>keyCode = Asterisk (keyboardKey env)\<rparr>]\<rparr>,
            Spread (guard (truthy (selectable props)) (object_literal [
              Prop ''performClick''
                \<lparr>keyCombinations =
                   (if truthy (hasSubtree props)
                    then [\<lparr>keyCode = Enter (keyboardKey env)\<rparr>]
                    else [\<lparr>keyCode = SpacebarKey env\<rparr>])\<rparr>,
              Prop ''performSelection''
                \<lparr>keyCombinations = [\<lparr>keyCode = SpacebarKey env\<rparr>]\<rparr>]))]\<rparr>,
        childBehaviors = \<lparr>title = treeTitleBehavior env\<rparr>\<rparr>
      in if NODE_ENV env \<noteq> Some ''production'' \<and> \<not> truthy (hasSubtree props)
         then definition\<lparr>attributes :=
                \<lparr>root = set_prop ''data-aa-class'' (JStr ''SingleTreeItem'')
                          (root (attributes definition))\<rparr>\<rparr>
         else definition)"

text \<open>Reading a property: \<open>None\<close> when the object has no such key.\<close>

definition get_prop :: "'v obj \<Rightarrow> string \<Rightarrow> 'v option" where
  "get_prop ob k = map_of ob k"

section \<open>The call, with failure as a value\<close>

text \<open>
  TypeScript's types are erased at run time, so the parameter can also hold
  \<open>undefined\<close> or \<open>null\<close>, and reading a property of either throws a \<open>TypeError\<close>;
  reading a property of an object never throws, an absent one reads as \<open>undefined\<close>.
  Property reads of \<open>props\<close> are the only operations of the source that can throw:
  spreading \<open>false\<close> or \<open>undefined\<close> into an object literal adds nothing, the write at
  line 87 is to an object the literal has just built, and the title behavior is stored,
  not called.
\<close>

datatype js_error = TypeError

datatype props_arg = PropsUndefined | PropsNull | PropsObject TreeItemBehaviorProps

definition read_prop :: "props_arg \<Rightarrow> (TreeItemBehaviorProps \<Rightarrow> 'a) \<Rightarrow> js_error + 'a" where
  "read_prop arg field =
     (case arg of
        PropsUndefined \<Rightarrow> Inl TypeError
      | PropsNull \<Rightarrow> Inl TypeError
      | PropsObject props \<Rightarrow> Inr (field props))"

text \<open>Sequencing: a throw ends the evaluation.\<close>

definition and_then :: "js_error + 'a \<Rightarrow> ('a \<Rightarrow> js_error + 'b) \<Rightarrow> js_error + 'b" where
  "and_then r k = (case r of Inl e \<Rightarrow> Inl e | Inr x \<Rightarrow> k x)"

text \<open>
  The source again, every \<open>props.field\<close> a step that may throw, in evaluation order;
  \<open>&&\<close> and \<open>?:\<close> read their right-hand sides only when they evaluate them. The
  destructuring in \<open>isSubtreeExpanded\<close> reads both fields.
\<close>

definition isSubtreeExpanded_run :: "props_arg \<Rightarrow> js_error + bool" where
  "isSubtreeExpanded_run arg =
     and_then (read_prop arg hasSubtree) (\<lambda>has.
     and_then (read_prop arg expanded) (\<lambda>is_expanded.
     Inr (truthy has \<and> truthy is_expanded)))"

definition root_attributes_run ::
  "('p, 'd) module_env \<Rightarrow> props_arg \<Rightarrow> js_error + js_value obj" where
  "root_attributes_run env arg =
     and_then (read_prop arg hasSubtree) (\<lambda>has.
     and_then
       (if truthy has then
          and_then (read_prop arg expanded) (\<lambda>aria_expanded.
          and_then (read_prop arg selectable) (\<lambda>sel.
          and_then
            (if truthy sel then
               and_then (read_prop arg selected) (\<lambda>sd.
               Inr (if truthy sd then JBool True else JBool False))
             else Inr JUndefined) (\<lambda>aria_selected.
          and_then (read_prop arg treeSize) (\<lambda>aria_setsize.
          and_then (read_prop arg index) (\<lambda>aria_posinset.
          and_then (read_prop arg level) (\<lambda>aria_level.
          Inr (Some (object_literal [
            Prop ''aria-expanded'' (bool_value aria_expanded),
            Prop ''aria-selected'' aria_selected,
            Prop ''tabIndex'' (JNum (- 1)),
            Prop (IS_FOCUSABLE_ATTRIBUTE env) (JBool True),
            Prop ''role'' (JStr ''treeitem''),
            Prop ''aria-setsize'' (number_value aria_setsize),
            Prop ''aria-posinset'' (number_value aria_posinset),
            Prop ''aria-level'' (number_value aria_level)]))))))))
        else Inr None) (\<lambda>subtree_attributes.
     Inr (object_literal [Prop ''role'' (JStr ''none''), Spread subtree_attributes])))"

definition root_key_actions_run ::
  "('p, 'd) module_env \<Rightarrow> props_arg \<Rightarrow> js_error + key_action obj" where
  "root_key_actions_run env arg =
     and_then (isSubtreeExpanded_run arg) (\<lambda>is_open.
     and_then (isSubtreeExpanded_run arg) (\<lambda>is_open_again.
     and_then
       (if \<not> is_open_again
        then and_then (read_prop arg hasSubtree) (\<lambda>has. Inr (truthy has))
        else Inr False) (\<lambda>is_closed.
     and_then (read_prop arg selectable) (\<lambda>sel.
     and_then
       (if truthy sel then
          and_then (read_prop arg hasSubtree) (\<lambda>has.
          Inr (Some (object_literal [
            Prop ''performClick''
              \<lparr>keyCombinations =
                 (if truthy has
                  then [\<lparr>keyCode = Enter (keyboardKey env)\<rparr>]
                  else [\<lparr>keyCode = SpacebarKey env\<rparr>])\<rparr>,
            Prop ''performSelection''
              \<lparr>keyCombinations = [\<lparr>keyCode = SpacebarKey env\<rparr>]\<rparr>])))
        else Inr None) (\<lambda>selection_actions.
     Inr (object_literal [
       Prop ''performClick''
         \<lparr>keyCombinations =
            [\<lparr>keyCode = Enter (keyboardKey env)\<rparr>, \<lparr>keyCode = SpacebarKey env\<rparr>]\<rparr>,
       Spread (guard is_open (object_literal [
         Prop ''collapse''
           \<lparr>keyCombinations = [\<lparr>keyCode = ArrowLeft (keyboardKey env)\<rparr>]\<rparr>,
         Prop ''focusFirstChild''
           \<lparr>keyCombinations = [\<lparr>keyCode = ArrowRight (keyboardKey env)\<rparr>]\<rparr>,
         Prop ''focusParent''
           \<lparr>keyCombinations = [\<lparr>keyCode = ArrowLeft (keyboardKey env)\<rparr>]\<rparr>])),
       Spread (guard is_closed (object_literal [
         Prop ''expand''
           \<lparr>keyCombinations = [\<lparr>keyCode = ArrowRight (keyboardKey env)\<rparr>]\<rparr>,
         Prop ''focusParent''
           \<lparr>keyCombinations = [\<lparr>keyCode = ArrowLeft (keyboardKey env)\<rparr>]\<rparr>])),
       Prop ''expandSiblings''
         \<lparr>keyCombinations = [\<lparr>keyCode = Asterisk (keyboardKey env)\<rparr>]\<rparr>,
       Spread selection_actions]))))))"

definition treeItemBehavior_run ::
  "('p, 'd) module_env \<Rightarrow> props_arg \<Rightarrow> js_error + ('p, 'd) accessibility_definition" where
  "treeItemBehavior_run env arg =
     and_then (root_attributes_run env arg) (\<lambda>root_attributes.
     and_then (root_key_actions_run env arg) (\<lambda>root_key_actions.
     let definition = \<lparr>
           attributes = \<lparr>root = root_attributes\<rparr>,
           keyActions = \<lparr>root = root_key_actions\<rparr>,
           childBehaviors = \<lparr>title = treeTitleBehavior env\<rparr>\<rparr>
     in and_then
          (if NODE_ENV env \<noteq> Some ''production''
           then and_then (read_prop arg hasSubtree) (\<lambda>has. Inr (\<not> truthy has))
           else Inr False) (\<lambda>is_single.
        Inr (if is_single
             then definition\<lparr>attributes :=
                    \<lparr>root = set_prop ''data-aa-class'' (JStr ''SingleTreeItem'')
                              (root (attributes definition))\<rparr>\<rparr>
             else definition))))"

section \<open>Observations and sample inputs\<close>

text \<open>
  The key codes an action of a slot is bound to, in the order of its key combinations;
  \<open>None\<close> when the slot has no entry for the action.
\<close>

definition bound_keys :: "key_action obj \<Rightarrow> string \<Rightarrow> int list option" where
  "bound_keys actions name =
     map_option (\<lambda>a. map keyCode (keyCombinations a)) (get_prop actions name)"

text \<open>An action has a key combination with the given key code.\<close>

definition bound_to :: "key_action obj \<Rightarrow> string \<Rightarrow> int \<Rightarrow> bool" where
  "bound_to actions name code =
     (case bound_keys actions name of None \<Rightarrow> False | Some codes \<Rightarrow> code \<in> set codes)"

text \<open>
  A concrete instance of the surroundings for evaluation, in production mode; the title
  behavior is a stand-in.
\<close>

definition sample_env :: "(TreeItemBehaviorProps, js_value obj) module_env" where
  "sample_env = \<lparr>
     keyboardKey = \<lparr>Enter = 13, ArrowLeft = 37, ArrowRight = 39, Asterisk = 106\<rparr>,
     SpacebarKey = 32,
     IS_FOCUSABLE_ATTRIBUTE = ''data-is-focusable'',
     treeTitleBehavior = (\<lambda>p. [(''tabIndex'', JNum (- 1))]),
     NODE_ENV = Some ''production''\<rparr>"

text \<open>Props with every field absent, and props of a leaf, an open and a closed subtree.\<close>

definition no_props :: TreeItemBehaviorProps where
  "no_props = \<lparr>expanded = None, level = None, index = None, hasSubtree = None,
     treeSize = None, selectable = None, selected = None\<rparr>"

definition selectable_leaf :: TreeItemBehaviorProps where
  "selectable_leaf = no_props\<lparr>hasSubtree := Some False, selectable := Some True\<rparr>"

definition open_subtree :: TreeItemBehaviorProps where
  "open_subtree = \<lparr>expanded = Some True, level = Some 1, index = Some 2,
     hasSubtree = Some True, treeSize = Some 3, selectable = Some True, selected = None\<rparr>"

definition closed_subtree :: TreeItemBehaviorProps where
  "closed_subtree = open_subtree\<lparr>expanded := Some False, selectable := None\<rparr>"

section \<open>Objects as maps\<close>

text \<open>
  A property write is a map update, keys stay distinct, and a spread is a map addition
  in which the spread object wins.
\<close>

lemma map_of_set_prop: "map_of (set_prop k v ps) = (map_of ps)(k \<mapsto> v)"
  by (induction ps) auto

lemma keys_set_prop:
  "map fst (set_prop k v ps) = (if k \<in> set (map fst ps) then map fst ps else map fst ps @ [k])"
  by (induction ps) (auto simp: rev_image_eqI)

lemma distinct_set_prop:
  "distinct (map fst ps) \<Longrightarrow> distinct (map fst (set_prop k v ps))"
  by (simp add: keys_set_prop)

lemma distinct_assign:
  "distinct (map fst ob) \<Longrightarrow> distinct (map fst (fold (\<lambda>(k, v). set_prop k v) src ob))"
  by (induction src arbitrary: ob) (auto simp: distinct_set_prop)

lemma distinct_add_member:
  "distinct (map fst ob) \<Longrightarrow> distinct (map fst (add_member m ob))"
proof (cases m)
  case (Prop k v)
  assume "distinct (map fst ob)"
  with Prop show ?thesis by (simp add: distinct_set_prop)
next
  case (Spread s)
  assume "distinct (map fst ob)"
  with Spread show ?thesis by (cases s) (simp_all add: distinct_assign)
qed

lemma distinct_object_literal: "distinct (map fst (object_literal ms))"
proof -
  have "distinct (map fst ob) \<Longrightarrow> distinct (map fst (fold add_member ms ob))" for ob :: "'a obj"
    by (induction ms arbitrary: ob) (simp_all add: distinct_add_member)
  then show ?thesis by (simp add: object_literal_def)
qed

lemma map_of_rev_distinct:
  "distinct (map fst ps) \<Longrightarrow> map_of (rev ps) = map_of ps"
proof (induction ps)
  case Nil
  then show ?case by simp
next
  case (Cons p ps)
  then have "map_of ps (fst p) = None"
    by (simp add: map_of_eq_None_iff)
  with Cons show ?case
    by (cases p) (auto simp: fun_eq_iff map_add_def split: option.splits)
qed

lemma map_of_assign:
  "map_of (fold (\<lambda>(k, v). set_prop k v) src ob) = map_of ob ++ map_of (rev src)"
proof (induction src arbitrary: ob)
  case Nil
  then show ?case by simp
next
  case (Cons p src)
  obtain k v where p: "p = (k, v)" by (cases p)
  have "map_of (fold (\<lambda>(k, v). set_prop k v) (p # src) ob) =
        map_of (set_prop k v ob) ++ map_of (rev src)"
    using Cons.IH [of "set_prop k v ob"] p by simp
  also have "\<dots> = map_of ob ++ map_of (rev (p # src))"
    by (simp add: p map_of_set_prop fun_eq_iff map_add_def split: option.splits)
  finally show ?case .
qed

lemma get_prop_eq: "get_prop = map_of"
  by (simp add: fun_eq_iff get_prop_def)

lemma map_of_add_member:
  "map_of (add_member (Prop k v) ob) = (map_of ob)(k \<mapsto> v)"
  "map_of (add_member (Spread None) ob) = map_of ob"
  "distinct (map fst src) \<Longrightarrow>
     map_of (add_member (Spread (Some src)) ob) = map_of ob ++ map_of src"
  by (simp_all add: map_of_set_prop map_of_assign map_of_rev_distinct)

section \<open>The descriptor in closed form\<close>

text \<open>
  The root attributes of an item with a subtree, as the map the successive property
  writes build; the computed key \<open>IS_FOCUSABLE_ATTRIBUTE\<close> stands where the source
  writes it, so a later entry with the same key wins over it.
\<close>

lemma root_attributes_subtree:
  assumes "hasSubtree props = Some True"
  shows "get_prop (root (attributes (treeItemBehavior env props))) =
    [''role'' \<mapsto> JStr ''none'',
     ''aria-expanded'' \<mapsto> bool_value (expanded props),
     ''aria-selected'' \<mapsto>
        (if selectable props = Some True then JBool (selected props = Some True) else JUndefined),
     ''tabIndex'' \<mapsto> JNum (- 1),
     IS_FOCUSABLE_ATTRIBUTE env \<mapsto> JBool True,
     ''role'' \<mapsto> JStr ''treeitem'',
     ''aria-setsize'' \<mapsto> number_value (treeSize props),
     ''aria-posinset'' \<mapsto> number_value (index props),
     ''aria-level'' \<mapsto> number_value (level props)]"
  using assms
  by (simp add: treeItemBehavior_def Let_def guard_def truthy_def object_literal_def
        get_prop_eq map_of_add_member distinct_add_member del: add_member.simps)

text \<open>
  So the marker's name matters: were it \<open>aria-selected\<close>, the marker's \<open>true\<close> would
  replace the selection state written before it.
\<close>

lemma marker_replaces_earlier_key:
  "get_prop (root (attributes (treeItemBehavior
      (sample_env\<lparr>IS_FOCUSABLE_ATTRIBUTE := ''aria-selected''\<rparr>)
      (open_subtree\<lparr>selected := Some False\<rparr>)))) ''aria-selected'' = Some (JBool True)"
  by (simp add: root_attributes_subtree open_subtree_def sample_env_def)

text \<open>
  The root attributes of an item without a subtree, and the root key actions of any
  item, as the lists the source builds.
\<close>

lemma attributes_root_leaf:
  "hasSubtree props \<noteq> Some True \<Longrightarrow>
   root (attributes (treeItemBehavior env props)) =
     (if NODE_ENV env = Some ''production'' then [(''role'', JStr ''none'')]
      else [(''role'', JStr ''none''), (''data-aa-class'', JStr ''SingleTreeItem'')])"
  by (simp add: treeItemBehavior_def Let_def object_literal_def guard_def truthy_def)

lemma key_actions_root:
  "root (keyActions (treeItemBehavior env props)) =
     [(''performClick'', \<lparr>keyCombinations =
         (if selectable props = Some True
          then (if hasSubtree props = Some True
                then [\<lparr>keyCode = Enter (keyboardKey env)\<rparr>]
                else [\<lparr>keyCode = SpacebarKey env\<rparr>])
          else [\<lparr>keyCode = Enter (keyboardKey env)\<rparr>, \<lparr>keyCode = SpacebarKey env\<rparr>])\<rparr>)]
     @ (if hasSubtree props = Some True
        then (if expanded props = Some True
              then [(''collapse'', \<lparr>keyCombinations = [\<lparr>keyCode = ArrowLeft (keyboardKey env)\<rparr>]\<rparr>),
                    (''focusFirstChild'',
                       \<lparr>keyCombinations = [\<lparr>keyCode = ArrowRight (keyboardKey env)\<rparr>]\<rparr>),
                    (''focusParent'', \<lparr>keyCombinations = [\<lparr>keyCode = ArrowLeft (keyboardKey env)\<rparr>]\<rparr>)]
              else [(''expand'', \<lparr>keyCombinations = [\<lparr>keyCode = ArrowRight (keyboardKey env)\<rparr>]\<rparr>),
                    (''focusParent'', \<lparr>keyCombinations = [\<lparr>keyCode = ArrowLeft (keyboardKey env)\<rparr>]\<rparr>)])
        else [])
     @ [(''expandSiblings'', \<lparr>keyCombinations = [\<lparr>keyCode = Asterisk (keyboardKey env)\<rparr>]\<rparr>)]
     @ (if selectable props = Some True
        then [(''performSelection'', \<lparr>keyCombinations = [\<lparr>keyCode = SpacebarKey env\<rparr>]\<rparr>)]
        else [])"
  by (simp add: treeItemBehavior_def Let_def object_literal_def guard_def truthy_def
        isSubtreeExpanded_def)

section \<open>Items without a subtree\<close>

text \<open>
  C1, as amended. For every props whose \<open>hasSubtree\<close> is false or absent, the root
  attributes are exactly \<open>{ role: "none" }\<close>, followed outside production mode by the
  diagnostic attribute \<open>data-aa-class\<close>; \<open>expandSiblings\<close> is bound to the key \<open>*\<close>;
  there is no \<open>expand\<close>, \<open>collapse\<close>, \<open>focusParent\<close> or \<open>focusFirstChild\<close> entry; and
  \<open>performClick\<close> is bound to Enter and Spacebar unless \<open>selectable\<close> is true, when it
  is bound to Spacebar alone.
\<close>

theorem leaf_item_descriptor:
  assumes "hasSubtree props \<noteq> Some True"
  shows "root (attributes (treeItemBehavior env props)) =
           (if NODE_ENV env = Some ''production'' then [(''role'', JStr ''none'')]
            else [(''role'', JStr ''none''), (''data-aa-class'', JStr ''SingleTreeItem'')])
       \<and> bound_keys (root (keyActions (treeItemBehavior env props))) ''performClick'' =
           Some (if selectable props = Some True then [SpacebarKey env]
                 else [Enter (keyboardKey env), SpacebarKey env])
       \<and> bound_keys (root (keyActions (treeItemBehavior env props))) ''expandSiblings'' =
           Some [Asterisk (keyboardKey env)]
       \<and> bound_keys (root (keyActions (treeItemBehavior env props))) ''expand'' = None
       \<and> bound_keys (root (keyActions (treeItemBehavior env props))) ''collapse'' = None
       \<and> bound_keys (root (keyActions (treeItemBehavior env props))) ''focusParent'' = None
       \<and> bound_keys (root (keyActions (treeItemBehavior env props))) ''focusFirstChild'' = None"
proof -
  have "root (attributes (treeItemBehavior env props)) =
           (if NODE_ENV env = Some ''production'' then [(''role'', JStr ''none'')]
            else [(''role'', JStr ''none''), (''data-aa-class'', JStr ''SingleTreeItem'')])"
    using assms by (rule attributes_root_leaf)
  moreover have "bound_keys (root (keyActions (treeItemBehavior env props))) ''performClick'' =
           Some (if selectable props = Some True then [SpacebarKey env]
                 else [Enter (keyboardKey env), SpacebarKey env])"
    using assms by (simp add: key_actions_root bound_keys_def get_prop_def)
  moreover have "bound_keys (root (keyActions (treeItemBehavior env props))) ''expandSiblings'' =
           Some [Asterisk (keyboardKey env)]"
    using assms by (simp add: key_actions_root bound_keys_def get_prop_def)
  moreover have "bound_keys (root (keyActions (treeItemBehavior env props))) name = None"
    if "name \<in> {''expand'', ''collapse'', ''focusParent'', ''focusFirstChild''}" for name
    using assms that by (auto simp: key_actions_root bound_keys_def get_prop_def)
  ultimately show ?thesis by simp
qed

theorem leaf_item_descriptor_witness:
  "hasSubtree no_props \<noteq> Some True
   \<and> root (attributes (treeItemBehavior sample_env no_props)) = [(''role'', JStr ''none'')]
   \<and> bound_keys (root (keyActions (treeItemBehavior sample_env no_props))) ''performClick'' =
       Some [13, 32]
   \<and> bound_keys (root (keyActions (treeItemBehavior sample_env no_props))) ''expandSiblings'' =
       Some [106]
   \<and> bound_keys (root (keyActions (treeItemBehavior sample_env no_props))) ''expand'' = None"
proof -
  have h: "hasSubtree no_props \<noteq> Some True" by (simp add: no_props_def)
  have s: "NODE_ENV sample_env = Some ''production''" "selectable no_props = None"
    "SpacebarKey sample_env = 32" "Enter (keyboardKey sample_env) = 13"
    "Asterisk (keyboardKey sample_env) = 106"
    by (simp_all add: sample_env_def no_props_def)
  show ?thesis
    using leaf_item_descriptor [OF h, of sample_env] h by (simp add: s)
qed

text \<open>
  C1 as written binds \<open>performClick\<close> to both Enter and Spacebar for every item without
  a subtree. A selectable one has it on Spacebar only.
\<close>

theorem leaf_click_counterexample:
  "hasSubtree selectable_leaf = Some False
   \<and> bound_keys (root (keyActions (treeItemBehavior sample_env selectable_leaf))) ''performClick'' =
       Some [32]
   \<and> \<not> bound_to (root (keyActions (treeItemBehavior sample_env selectable_leaf)))
         ''performClick'' (Enter (keyboardKey sample_env))"
  by (simp add: key_actions_root bound_to_def bound_keys_def get_prop_def selectable_leaf_def
        no_props_def sample_env_def)

text \<open>
  C2. For every props with \<open>selectable = true\<close> and \<open>hasSubtree\<close> false (or absent),
  \<open>performClick\<close> is bound to Spacebar only: its key combinations are the single entry
  with \<open>SpacebarKey\<close>, so Enter, a key code other than Spacebar's, is not among them; and
  \<open>performSelection\<close> is bound to Spacebar.
\<close>

theorem selectable_leaf_click:
  assumes "selectable props = Some True" and "hasSubtree props \<noteq> Some True"
  shows "bound_keys (root (keyActions (treeItemBehavior env props))) ''performClick'' =
           Some [SpacebarKey env]
       \<and> (Enter (keyboardKey env) \<noteq> SpacebarKey env \<longrightarrow>
            \<not> bound_to (root (keyActions (treeItemBehavior env props))) ''performClick''
                (Enter (keyboardKey env)))
       \<and> bound_keys (root (keyActions (treeItemBehavior env props))) ''performSelection'' =
           Some [SpacebarKey env]"
  using assms by (simp add: key_actions_root bound_to_def bound_keys_def get_prop_def)

text \<open>The selectable leaf, with Enter = 13 and Spacebar = 32.\<close>

theorem selectable_leaf_click_witness:
  "selectable selectable_leaf = Some True \<and> hasSubtree selectable_leaf \<noteq> Some True
   \<and> Enter (keyboardKey sample_env) \<noteq> SpacebarKey sample_env
   \<and> bound_keys (root (keyActions (treeItemBehavior sample_env selectable_leaf)))
        ''performClick'' = Some [32]
   \<and> \<not> bound_to (root (keyActions (treeItemBehavior sample_env selectable_leaf)))
        ''performClick'' 13
   \<and> bound_keys (root (keyActions (treeItemBehavior sample_env selectable_leaf)))
        ''performSelection'' = Some [32]"
proof -
  have h1: "selectable selectable_leaf = Some True"
    and h2: "hasSubtree selectable_leaf \<noteq> Some True"
    by (simp_all add: selectable_leaf_def no_props_def)
  have s: "SpacebarKey sample_env = 32" "Enter (keyboardKey sample_env) = 13"
    by (simp_all add: sample_env_def)
  show ?thesis
    using selectable_leaf_click [OF h1 h2, of sample_env] h1 h2 by (simp add: s)
qed

section \<open>Items with a subtree\<close>

text \<open>
  C3. For every props with \<open>selectable = true\<close> and \<open>hasSubtree = true\<close>,
  \<open>performClick\<close> is bound to Enter only (Spacebar, a different key code, is not among
  its combinations), \<open>performSelection\<close> is bound to Spacebar, and the root attribute
  \<open>aria-selected\<close> is \<open>props.selected\<close>, or \<open>false\<close> when \<open>selected\<close> is absent. The
  attribute part is for a focusability marker whose name is not \<open>aria-selected\<close> itself.
\<close>

theorem selectable_subtree_click:
  assumes "selectable props = Some True" and "hasSubtree props = Some True"
  shows "bound_keys (root (keyActions (treeItemBehavior env props))) ''performClick'' =
           Some [Enter (keyboardKey env)]
       \<and> (SpacebarKey env \<noteq> Enter (keyboardKey env) \<longrightarrow>
            \<not> bound_to (root (keyActions (treeItemBehavior env props))) ''performClick''
                (SpacebarKey env))
       \<and> bound_keys (root (keyActions (treeItemBehavior env props))) ''performSelection'' =
           Some [SpacebarKey env]
       \<and> (IS_FOCUSABLE_ATTRIBUTE env \<noteq> ''aria-selected'' \<longrightarrow>
            get_prop (root (attributes (treeItemBehavior env props))) ''aria-selected'' =
              Some (JBool (case selected props of None \<Rightarrow> False | Some b \<Rightarrow> b)))"
proof -
  have "bound_keys (root (keyActions (treeItemBehavior env props))) ''performClick'' =
           Some [Enter (keyboardKey env)]"
    and "SpacebarKey env \<noteq> Enter (keyboardKey env) \<longrightarrow>
            \<not> bound_to (root (keyActions (treeItemBehavior env props))) ''performClick''
                (SpacebarKey env)"
    and "bound_keys (root (keyActions (treeItemBehavior env props))) ''performSelection'' =
           Some [SpacebarKey env]"
    using assms by (simp_all add: key_actions_root bound_to_def bound_keys_def get_prop_def)
  moreover have "IS_FOCUSABLE_ATTRIBUTE env \<noteq> ''aria-selected'' \<longrightarrow>
            get_prop (root (attributes (treeItemBehavior env props))) ''aria-selected'' =
              Some (JBool (case selected props of None \<Rightarrow> False | Some b \<Rightarrow> b))"
    using assms by (auto simp: root_attributes_subtree split: option.splits)
  ultimately show ?thesis by simp
qed

text \<open>A selectable open subtree whose \<open>selected\<close> is absent.\<close>

theorem selectable_subtree_click_witness:
  "selectable open_subtree = Some True \<and> hasSubtree open_subtree = Some True
   \<and> SpacebarKey sample_env \<noteq> Enter (keyboardKey sample_env)
   \<and> IS_FOCUSABLE_ATTRIBUTE sample_env \<noteq> ''aria-selected''
   \<and> bound_keys (root (keyActions (treeItemBehavior sample_env open_subtree)))
        ''performClick'' = Some [13]
   \<and> \<not> bound_to (root (keyActions (treeItemBehavior sample_env open_subtree)))
        ''performClick'' 32
   \<and> bound_keys (root (keyActions (treeItemBehavior sample_env open_subtree)))
        ''performSelection'' = Some [32]
   \<and> get_prop (root (attributes (treeItemBehavior sample_env open_subtree))) ''aria-selected'' =
        Some (JBool False)"
proof -
  have h1: "selectable open_subtree = Some True"
    and h2: "hasSubtree open_subtree = Some True"
    by (simp_all add: open_subtree_def)
  have s: "SpacebarKey sample_env = 32" "Enter (keyboardKey sample_env) = 13"
    "IS_FOCUSABLE_ATTRIBUTE sample_env = ''data-is-focusable''" "selected open_subtree = None"
    by (simp_all add: sample_env_def open_subtree_def)
  show ?thesis
    using selectable_subtree_click [OF h1 h2, of sample_env] h1 h2 by (simp add: s)
qed

text \<open>
  C4. For every props with \<open>hasSubtree = true\<close>, the root attributes hold
  \<open>aria-expanded = props.expanded\<close>, \<open>aria-selected = props.selected || false\<close> when
  \<open>selectable\<close> is true and \<open>undefined\<close> otherwise, the focusability marker set to
  \<open>true\<close>, \<open>role = "treeitem"\<close>, \<open>aria-setsize = props.treeSize\<close>,
  \<open>aria-posinset = props.index\<close>, \<open>aria-level = props.level\<close> and \<open>tabIndex = -1\<close>. The
  marker's name is an import; it is taken to differ from the seven attribute names the
  literal spells out.
\<close>

theorem subtree_root_attributes:
  assumes "hasSubtree props = Some True"
    and "IS_FOCUSABLE_ATTRIBUTE env \<notin> {''role'', ''aria-expanded'', ''aria-selected'',
           ''tabIndex'', ''aria-setsize'', ''aria-posinset'', ''aria-level''}"
  shows "get_prop (root (attributes (treeItemBehavior env props))) ''aria-expanded'' =
           Some (case expanded props of None \<Rightarrow> JUndefined | Some b \<Rightarrow> JBool b)
       \<and> get_prop (root (attributes (treeItemBehavior env props))) ''aria-selected'' =
           Some (if selectable props = Some True
                 then (case selected props of None \<Rightarrow> JBool False | Some b \<Rightarrow> JBool b)
                 else JUndefined)
       \<and> get_prop (root (attributes (treeItemBehavior env props))) (IS_FOCUSABLE_ATTRIBUTE env) =
           Some (JBool True)
       \<and> get_prop (root (attributes (treeItemBehavior env props))) ''role'' =
           Some (JStr ''treeitem'')
       \<and> get_prop (root (attributes (treeItemBehavior env props))) ''aria-setsize'' =
           Some (case treeSize props of None \<Rightarrow> JUndefined | Some n \<Rightarrow> JNum n)
       \<and> get_prop (root (attributes (treeItemBehavior env props))) ''aria-posinset'' =
           Some (case index props of None \<Rightarrow> JUndefined | Some n \<Rightarrow> JNum n)
       \<and> get_prop (root (attributes (treeItemBehavior env props))) ''aria-level'' =
           Some (case level props of None \<Rightarrow> JUndefined | Some n \<Rightarrow> JNum n)
       \<and> get_prop (root (attributes (treeItemBehavior env props))) ''tabIndex'' =
           Some (JNum (- 1))"
  using assms
  by (auto simp: root_attributes_subtree bool_value_def number_value_def split: option.splits)

text \<open>The open subtree of size 3, at position 2 and level 1.\<close>

theorem subtree_root_attributes_witness:
  "hasSubtree open_subtree = Some True
   \<and> IS_FOCUSABLE_ATTRIBUTE sample_env \<notin> {''role'', ''aria-expanded'', ''aria-selected'',
           ''tabIndex'', ''aria-setsize'', ''aria-posinset'', ''aria-level''}
   \<and> get_prop (root (attributes (treeItemBehavior sample_env open_subtree))) ''aria-expanded'' =
        Some (JBool True)
   \<and> get_prop (root (attributes (treeItemBehavior sample_env open_subtree))) ''aria-selected'' =
        Some (JBool False)
   \<and> get_prop (root (attributes (treeItemBehavior sample_env open_subtree)))
        ''data-is-focusable'' = Some (JBool True)
   \<and> get_prop (root (attributes (treeItemBehavior sample_env open_subtree))) ''role'' =
        Some (JStr ''treeitem'')
   \<and> get_prop (root (attributes (treeItemBehavior sample_env open_subtree))) ''aria-setsize'' =
        Some (JNum 3)
   \<and> get_prop (root (attributes (treeItemBehavior sample_env open_subtree))) ''aria-posinset'' =
        Some (JNum 2)
   \<and> get_prop (root (attributes (treeItemBehavior sample_env open_subtree))) ''aria-level'' =
        Some (JNum 1)
   \<and> get_prop (root (attributes (treeItemBehavior sample_env open_subtree))) ''tabIndex'' =
        Some (JNum (- 1))"
proof -
  have h1: "hasSubtree open_subtree = Some True"
    by (simp add: open_subtree_def)
  have m: "IS_FOCUSABLE_ATTRIBUTE sample_env = ''data-is-focusable''"
    by (simp add: sample_env_def)
  have h2: "IS_FOCUSABLE_ATTRIBUTE sample_env \<notin> {''role'', ''aria-expanded'', ''aria-selected'',
           ''tabIndex'', ''aria-setsize'', ''aria-posinset'', ''aria-level''}"
    by (simp add: m)
  have s: "expanded open_subtree = Some True" "selectable open_subtree = Some True"
    "selected open_subtree = None" "treeSize open_subtree = Some 3"
    "index open_subtree = Some 2" "level open_subtree = Some 1"
    by (simp_all add: open_subtree_def)
  show ?thesis
    using subtree_root_attributes [OF h1 h2] h1 h2 by (simp add: s m)
qed


text \<open>
  C5. For every props with \<open>hasSubtree = true\<close> and \<open>expanded = true\<close>, the root
  attributes have \<open>role = "treeitem"\<close> and \<open>aria-expanded = true\<close>, and the root key
  actions have \<open>collapse\<close> on ArrowLeft, \<open>focusFirstChild\<close> on ArrowRight, \<open>focusParent\<close>
  on ArrowLeft, and no \<open>expand\<close>. This holds whatever the marker's name is.
\<close>

theorem open_subtree_descriptor:
  assumes "hasSubtree props = Some True" and "expanded props = Some True"
  shows "get_prop (root (attributes (treeItemBehavior env props))) ''role'' =
           Some (JStr ''treeitem'')
       \<and> get_prop (root (attributes (treeItemBehavior env props))) ''aria-expanded'' =
           Some (JBool True)
       \<and> bound_keys (root (keyActions (treeItemBehavior env props))) ''collapse'' =
           Some [ArrowLeft (keyboardKey env)]
       \<and> bound_keys (root (keyActions (treeItemBehavior env props))) ''focusFirstChild'' =
           Some [ArrowRight (keyboardKey env)]
       \<and> bound_keys (root (keyActions (treeItemBehavior env props))) ''focusParent'' =
           Some [ArrowLeft (keyboardKey env)]
       \<and> bound_keys (root (keyActions (treeItemBehavior env props))) ''expand'' = None"
proof -
  have "get_prop (root (attributes (treeItemBehavior env props))) ''role'' =
           Some (JStr ''treeitem'')"
    and "get_prop (root (attributes (treeItemBehavior env props))) ''aria-expanded'' =
           Some (JBool True)"
    using assms by (simp_all add: root_attributes_subtree bool_value_def)
  moreover have "bound_keys (root (keyActions (treeItemBehavior env props))) ''collapse'' =
           Some [ArrowLeft (keyboardKey env)]"
    and "bound_keys (root (keyActions (treeItemBehavior env props))) ''focusFirstChild'' =
           Some [ArrowRight (keyboardKey env)]"
    and "bound_keys (root (keyActions (treeItemBehavior env props))) ''focusParent'' =
           Some [ArrowLeft (keyboardKey env)]"
    and "bound_keys (root (keyActions (treeItemBehavior env props))) ''expand'' = None"
    using assms by (simp_all add: key_actions_root bound_keys_def get_prop_def)
  ultimately show ?thesis by simp
qed

text \<open>The open subtree, with ArrowLeft = 37 and ArrowRight = 39.\<close>

theorem open_subtree_descriptor_witness:
  "hasSubtree open_subtree = Some True \<and> expanded open_subtree = Some True
   \<and> get_prop (root (attributes (treeItemBehavior sample_env open_subtree))) ''role'' =
        Some (JStr ''treeitem'')
   \<and> get_prop (root (attributes (treeItemBehavior sample_env open_subtree))) ''aria-expanded'' =
        Some (JBool True)
   \<and> bound_keys (root (keyActions (treeItemBehavior sample_env open_subtree))) ''collapse'' =
        Some [37]
   \<and> bound_keys (root (keyActions (treeItemBehavior sample_env open_subtree)))
        ''focusFirstChild'' = Some [39]
   \<and> bound_keys (root (keyActions (treeItemBehavior sample_env open_subtree))) ''focusParent'' =
        Some [37]
   \<and> bound_keys (root (keyActions (treeItemBehavior sample_env open_subtree))) ''expand'' = None"
proof -
  have h1: "hasSubtree open_subtree = Some True"
    and h2: "expanded open_subtree = Some True"
    by (simp_all add: open_subtree_def)
  have s: "ArrowLeft (keyboardKey sample_env) = 37" "ArrowRight (keyboardKey sample_env) = 39"
    by (simp_all add: sample_env_def)
  show ?thesis
    using open_subtree_descriptor [OF h1 h2, of sample_env] h1 h2 by (simp add: s)
qed

text \<open>
  C6. For every props with \<open>hasSubtree = true\<close> and \<open>expanded\<close> false (or absent), the
  root key actions have \<open>expand\<close> on ArrowRight and \<open>focusParent\<close> on ArrowLeft, and
  neither \<open>collapse\<close> nor \<open>focusFirstChild\<close>.
\<close>

theorem closed_subtree_key_actions:
  assumes "hasSubtree props = Some True" and "expanded props \<noteq> Some True"
  shows "bound_keys (root (keyActions (treeItemBehavior env props))) ''expand'' =
           Some [ArrowRight (keyboardKey env)]
       \<and> bound_keys (root (keyActions (treeItemBehavior env props))) ''focusParent'' =
           Some [ArrowLeft (keyboardKey env)]
       \<and> bound_keys (root (keyActions (treeItemBehavior env props))) ''collapse'' = None
       \<and> bound_keys (root (keyActions (treeItemBehavior env props))) ''focusFirstChild'' = None"
  using assms by (simp add: key_actions_root bound_keys_def get_prop_def)

text \<open>The closed subtree.\<close>

theorem closed_subtree_key_actions_witness:
  "hasSubtree closed_subtree = Some True \<and> expanded closed_subtree \<noteq> Some True
   \<and> bound_keys (root (keyActions (treeItemBehavior sample_env closed_subtree))) ''expand'' =
        Some [39]
   \<and> bound_keys (root (keyActions (treeItemBehavior sample_env closed_subtree)))
        ''focusParent'' = Some [37]
   \<and> bound_keys (root (keyActions (treeItemBehavior sample_env closed_subtree))) ''collapse'' =
        None
   \<and> bound_keys (root (keyActions (treeItemBehavior sample_env closed_subtree)))
        ''focusFirstChild'' = None"
proof -
  have h1: "hasSubtree closed_subtree = Some True"
    and h2: "expanded closed_subtree \<noteq> Some True"
    by (simp_all add: closed_subtree_def open_subtree_def)
  have s: "ArrowLeft (keyboardKey sample_env) = 37" "ArrowRight (keyboardKey sample_env) = 39"
    by (simp_all add: sample_env_def)
  show ?thesis
    using closed_subtree_key_actions [OF h1 h2, of sample_env] h1 h2 by (simp add: s)
qed

section \<open>Properties of every call\<close>

text \<open>
  C7. For every props, \<open>childBehaviors.title\<close> is present and is the imported title
  behavior itself, unmodified: on any props it gives what the title behavior gives.
\<close>

theorem title_behavior_delegated:
  "title (childBehaviors (treeItemBehavior env props)) q = treeTitleBehavior env q"
  by (simp add: treeItemBehavior_def Let_def)

text \<open>
  C8. The descriptor is a function of the props and of the build mode alone: two calls
  with equal props, in surroundings that agree on whether \<open>NODE_ENV\<close> is
  \<open>production\<close>, return equal descriptors.
\<close>

theorem same_mode_same_descriptor:
  assumes "props = props'"
    and "(mode = Some ''production'') = (mode' = Some ''production'')"
  shows "treeItemBehavior (env\<lparr>NODE_ENV := mode\<rparr>) props =
         treeItemBehavior (env\<lparr>NODE_ENV := mode'\<rparr>) props'"
  using assms by (simp add: treeItemBehavior_def Let_def)

text \<open>Two non-production settings of \<open>NODE_ENV\<close>, unset and \<open>development\<close>.\<close>

theorem same_mode_same_descriptor_witness:
  "selectable_leaf = selectable_leaf
   \<and> ((None :: string option) = Some ''production'') = (Some ''development'' = Some ''production'')
   \<and> treeItemBehavior (sample_env\<lparr>NODE_ENV := None\<rparr>) selectable_leaf =
       treeItemBehavior (sample_env\<lparr>NODE_ENV := Some ''development''\<rparr>) selectable_leaf
   \<and> root (attributes (treeItemBehavior (sample_env\<lparr>NODE_ENV := None\<rparr>) selectable_leaf)) =
       [(''role'', JStr ''none''), (''data-aa-class'', JStr ''SingleTreeItem'')]"
proof -
  have h: "((None :: string option) = Some ''production'') =
           (Some ''development'' = Some ''production'')"
    by simp
  have a: "root (attributes (treeItemBehavior (sample_env\<lparr>NODE_ENV := None\<rparr>) selectable_leaf)) =
       [(''role'', JStr ''none''), (''data-aa-class'', JStr ''SingleTreeItem'')]"
    by (simp add: attributes_root_leaf selectable_leaf_def no_props_def)
  show ?thesis
    using same_mode_same_descriptor [OF refl h, of sample_env selectable_leaf] a by simp
qed






text \<open>The failing branch is there: outside the declared type the first read throws.\<close>

lemma call_on_null_raises:
  "treeItemBehavior_run env PropsNull = Inl TypeError"
  "treeItemBehavior_run env PropsUndefined = Inl TypeError"
  by (simp_all add: treeItemBehavior_run_def root_attributes_run_def read_prop_def and_then_def)

text \<open>
  C10. For any props whatsoever, the root key actions never hold both an \<open>expand\<close> entry
  and a \<open>collapse\<close> entry.
\<close>

theorem never_expand_and_collapse:
  "\<not> (bound_keys (root (keyActions (treeItemBehavior env props))) ''expand'' \<noteq> None
      \<and> bound_keys (root (keyActions (treeItemBehavior env props))) ''collapse'' \<noteq> None)"
  by (simp add: key_actions_root bound_keys_def get_prop_def)

end
